theory Spec2Isabelle
  imports Main "HOL-Library.Sublist"
begin

section \<open>Strings and paths\<close>

text \<open>
  Python strings are modelled as \<open>string\<close> (lists of 8-bit characters).  \<open>str.lower\<close> is
  modelled on the ASCII letters; every other character is left as it is.
\<close>

definition ascii_uppercase :: string where
  "ascii_uppercase = ''ABCDEFGHIJKLMNOPQRSTUVWXYZ''"

definition ascii_lowercase :: string where
  "ascii_lowercase = ''abcdefghijklmnopqrstuvwxyz''"

definition lower_char :: "char \<Rightarrow> char" where
  "lower_char c =
     (case map_of (zip ascii_uppercase ascii_lowercase) c of Some d \<Rightarrow> d | None \<Rightarrow> c)"

definition lower :: "string \<Rightarrow> string" where
  "lower s = map lower_char s"

text \<open>\<open>needle in s\<close> on strings: \<open>needle\<close> occurs in \<open>s\<close> as a contiguous run.\<close>

fun contains :: "string \<Rightarrow> string \<Rightarrow> bool" where
  "contains needle [] = (needle = [])"
| "contains needle (c # cs) = (prefix needle (c # cs) \<or> contains needle cs)"

text \<open>\<open>s.startswith(p)\<close>.\<close>

definition startswith :: "string \<Rightarrow> string \<Rightarrow> bool" where
  "startswith s p = prefix p s"

text \<open>\<open>s.split(sep)\<close> for a one-character separator: the pieces between the separators,
  empty pieces included.\<close>

fun split :: "char \<Rightarrow> string \<Rightarrow> string list" where
  "split sep [] = [[]]"
| "split sep (c # cs) =
     (if c = sep then [] # split sep cs
      else (case split sep cs of [] \<Rightarrow> [[c]] | w # ws \<Rightarrow> (c # w) # ws))"

text \<open>\<open>str.strip()\<close>: leading and trailing ASCII white space removed.\<close>

definition whitespace :: string where
  "whitespace = [CHR '' '', CHR 0x09, CHR 0x0A, CHR 0x0B, CHR 0x0C, CHR 0x0D]"

definition strip :: "string \<Rightarrow> string" where
  "strip s =
     rev (dropWhile (\<lambda>c. c \<in> set whitespace) (rev (dropWhile (\<lambda>c. c \<in> set whitespace) s)))"

text \<open>\<open>os.path.join(a, b)\<close> of \<open>posixpath\<close>, for two components.\<close>

definition os_path_join :: "string \<Rightarrow> string \<Rightarrow> string" where
  "os_path_join a b =
     (if startswith b ''/'' then b
      else if a = [] \<or> last a = CHR ''/'' then a @ b
      else a @ ''/'' @ b)"

text \<open>\<open>os.path.basename\<close> and \<open>os.path.dirname\<close> of \<open>posixpath\<close>: the path is cut after
  its last slash; \<open>dirname\<close> drops the trailing slashes of the head unless the head is
  slashes only.\<close>

definition os_path_basename :: "string \<Rightarrow> string" where
  "os_path_basename p = rev (takeWhile (\<lambda>c. c \<noteq> CHR ''/'') (rev p))"

definition os_path_dirname :: "string \<Rightarrow> string" where
  "os_path_dirname p =
     (let head = rev (dropWhile (\<lambda>c. c \<noteq> CHR ''/'') (rev p))
      in if head \<noteq> [] \<and> \<not> list_all (\<lambda>c. c = CHR ''/'') head
         then rev (dropWhile (\<lambda>c. c = CHR ''/'') (rev head))
         else head)"

text \<open>
  \<open>pathlib.Path(p)\<close> on POSIX keeps the components of \<open>p\<close> between slashes, without the
  empty ones and the single dots.  \<open>Path(p).name\<close> is the last component (the empty
  string when there is none), \<open>Path(p).parent\<close> is the path without its last component.
\<close>

definition Path_parts :: "string \<Rightarrow> string list" where
  "Path_parts p = filter (\<lambda>c. c \<noteq> [] \<and> c \<noteq> ''.'') (split (CHR ''/'') p)"

definition parts_name :: "string list \<Rightarrow> string" where
  "parts_name cs = (if cs = [] then [] else last cs)"

definition Path_name :: "string \<Rightarrow> string" where
  "Path_name p = parts_name (Path_parts p)"

definition Path_parent_name :: "string \<Rightarrow> string" where
  "Path_parent_name p = parts_name (butlast (Path_parts p))"

section \<open>Configuration and constants\<close>

definition MANAGER_PATHS :: "(string \<times> string list) list" where
  "MANAGER_PATHS =
     [(''pyenv'', [''~/.pyenv/versions'']),
      (''asdf'', [''~/.asdf/installs/python'']),
      (''pipx'', [''~/.local/pipx/venvs'']),
      (''poetry'', [''~/.cache/pypoetry/virtualenvs'', ''~/.local/share/pypoetry/virtualenvs'']),
      (''conda'', [''~/miniconda3/envs'', ''~/anaconda3/envs'', ''~/miniforge3/envs'',
                   ''/opt/miniconda3/envs'', ''/opt/anaconda3/envs'']),
      (''pipenv'', [''~/.local/share/virtualenvs'']),
      (''hatch'', [''~/.local/share/hatch/env/virtual'']),
      (''pdm'', [''~/.local/share/pdm/venvs'']),
      (''uv'', [''~/.local/share/uv/venvs'', ''~/.cache/uv/venvs''])]"

definition SYSTEM_PYTHON_PATHS :: "string list" where
  "SYSTEM_PYTHON_PATHS =
     [''/usr/bin/python'', ''/usr/bin/python2'', ''/usr/bin/python3'',
      ''/System/Library/Frameworks/Python.framework'',
      ''/Library/Frameworks/Python.framework'',
      ''C:'' @ [CHR 0x5C] @ ''Windows'' @ [CHR 0x5C] @ ''System32'',
      ''C:'' @ [CHR 0x5C] @ ''Python'']"

definition PROJECT_VENV_NAMES :: "string list" where
  "PROJECT_VENV_NAMES = [''.venv'', ''venv'', ''env'', ''.env'', ''virtualenv'']"

section \<open>The operating system as the program sees it\<close>

text \<open>
  Exceptions that the modelled code raises or lets through.  \<open>IllTypedValue\<close> is not a
  Python exception: it marks the point where the source would store a value that is not a
  \<open>str\<close> in a field declared \<open>str\<close> (\<open>Package.name\<close>, \<open>Package.version\<close>); the model
  follows the declared field types and stops there.
\<close>

datatype exn = PermissionError | OSError | KeyError | TypeError | IndexError | IllTypedValue

text \<open>
  The outcome of \<open>subprocess.run(..., capture_output=True, text=True, timeout=t)\<close>: the
  process completes with a return code and its standard output, or the call raises one of
  the two exceptions its callers name (\<open>TimeoutExpired\<close> is a \<open>SubprocessError\<close>).
\<close>

datatype proc_result = Completed int string | SubprocessError | FileNotFoundError

text \<open>A parsed JSON document; null, booleans and numbers are told apart no further than
  the program does.\<close>

datatype json =
    JNull
  | JBool bool
  | JNumber int
  | JString string
  | JArray "json list"
  | JObject "(string \<times> json) list"

text \<open>An entry of \<open>os.scandir\<close>: its name, and the answer of
  \<open>entry.is_dir(follow_symlinks=False)\<close>.\<close>

record dir_entry =
  entry_name :: string
  entry_is_dir :: bool

text \<open>
  One snapshot of the machine: the answers of the file-system calls, of the process
  runner and of the JSON parser.  \<open>os_scandir\<close> lists a directory or raises;
  \<open>get_dir_size\<close> stands for the walk that sums file sizes (it swallows its own errors);
  \<open>json_loads\<close> returns \<open>None\<close> where \<open>json.loads\<close> raises \<open>JSONDecodeError\<close>.
\<close>

record os =
  os_path_abspath :: "string \<Rightarrow> string"
  os_path_realpath :: "string \<Rightarrow> string"
  os_path_expanduser :: "string \<Rightarrow> string"
  os_path_exists :: "string \<Rightarrow> bool"
  os_path_isdir :: "string \<Rightarrow> bool"
  os_access_X_OK :: "string \<Rightarrow> bool"
  os_scandir :: "string \<Rightarrow> exn + dir_entry list"
  os_environ_PATH :: string
  platform_system :: string
  get_dir_size :: "string \<Rightarrow> int"
  subprocess_run :: "string list \<Rightarrow> proc_result"
  json_loads :: "string \<Rightarrow> json option"

definition entry_path :: "string \<Rightarrow> dir_entry \<Rightarrow> string" where
  "entry_path root entry = os_path_join root (entry_name entry)"

section \<open>Utilities\<close>

definition is_system_path :: "os \<Rightarrow> string \<Rightarrow> bool" where
  "is_system_path os path =
     (let abs_path = os_path_abspath os path
      in list_ex (\<lambda>sys_path. startswith abs_path sys_path) SYSTEM_PYTHON_PATHS)"

definition run_python_command :: "os \<Rightarrow> string \<Rightarrow> string \<Rightarrow> string option" where
  "run_python_command os python_exec cmd =
     (case subprocess_run os [python_exec, ''-c'', cmd] of
        Completed returncode stdout \<Rightarrow> (if returncode = 0 then Some (strip stdout) else None)
      | SubprocessError \<Rightarrow> None
      | FileNotFoundError \<Rightarrow> None)"

definition get_project_name :: "string \<Rightarrow> string" where
  "get_project_name venv_path =
     (if Path_name venv_path \<in> set PROJECT_VENV_NAMES then Path_parent_name venv_path
      else Path_name venv_path)"

section \<open>Python interpreters\<close>

record PythonInterpreter =
  interp_path :: string
  interp_version :: "string option"
  interp_manager :: string
  interp_is_system :: bool
  interp_size_bytes :: int

text \<open>The manager chain of \<open>PythonInterpreter._detect_info\<close>, on \<open>self.path\<close> and
  \<open>self.is_system\<close>.\<close>

definition PythonInterpreter_detect_manager :: "bool \<Rightarrow> string \<Rightarrow> string" where
  "PythonInterpreter_detect_manager is_system path =
     (let path_lower = lower path in
      if contains ''.pyenv'' path_lower then ''pyenv''
      else if contains ''.asdf'' path_lower then ''asdf''
      else if contains ''conda'' path_lower \<or> contains ''miniconda'' path_lower
              \<or> contains ''anaconda'' path_lower then ''conda''
      else if contains ''homebrew'' path_lower \<or> contains ''cellar'' path_lower then ''homebrew''
      else if contains ''uv'' path_lower then ''uv''
      else if is_system then ''system''
      else ''unknown'')"

definition detect_version :: "os \<Rightarrow> string \<Rightarrow> string option" where
  "detect_version os python_exec =
     (case run_python_command os python_exec ''import sys; print(sys.version)'' of
        None \<Rightarrow> None
      | Some ver_output \<Rightarrow>
          (if ver_output = [] then None else Some (hd (split (CHR 0x0A) ver_output))))"

definition PythonInterpreter_init :: "os \<Rightarrow> string \<Rightarrow> PythonInterpreter" where
  "PythonInterpreter_init os path =
     (let self_path = os_path_abspath os path;
          is_system = is_system_path os path;
          parent = os_path_dirname self_path;
          version_dir = os_path_dirname parent
      in \<lparr> interp_path = self_path,
           interp_version = detect_version os self_path,
           interp_manager = PythonInterpreter_detect_manager is_system self_path,
           interp_is_system = is_system,
           interp_size_bytes =
             (if os_path_basename parent = ''bin'' \<and> os_path_isdir os version_dir
              then get_dir_size os version_dir else 0) \<rparr>)"

section \<open>Packages and virtual environments\<close>

record Package =
  pkg_name :: string
  pkg_version :: string
  pkg_size_bytes :: int

text \<open>The float \<open>last_modified\<close> of the source is left out; no modelled operation reads it.\<close>

record VirtualEnv =
  venv_path :: string
  venv_name :: string
  venv_project_name :: string
  venv_python_version :: "string option"
  venv_manager :: string
  venv_size_bytes :: int
  venv_packages :: "Package list"
  venv_python_executable :: "string option"
  venv_packages_loaded :: bool

text \<open>The manager chain of \<open>VirtualEnv._detect_info\<close>, on \<open>self.path\<close>.\<close>

definition VirtualEnv_detect_manager :: "string \<Rightarrow> string" where
  "VirtualEnv_detect_manager path =
     (let path_lower = lower path in
      if contains ''.pyenv'' path_lower then ''pyenv''
      else if contains ''pipx'' path_lower then ''pipx''
      else if contains ''poetry'' path_lower then ''poetry''
      else if contains ''conda'' path_lower \<or> contains ''miniconda'' path_lower
              \<or> contains ''anaconda'' path_lower then ''conda''
      else if contains ''virtualenvs'' path_lower \<or> contains ''pipenv'' path_lower then ''pipenv''
      else if contains ''hatch'' path_lower then ''hatch''
      else if contains ''pdm'' path_lower then ''pdm''
      else if contains ''uv'' path_lower then ''uv''
      else ''venv'')"

definition detect_python_executable :: "os \<Rightarrow> string \<Rightarrow> string option" where
  "detect_python_executable os self_path =
     (case filter (\<lambda>py_path. os_path_exists os py_path \<and> os_access_X_OK os py_path)
             (map (os_path_join self_path) [''bin/python'', ''bin/python3'', ''Scripts/python.exe''])
      of [] \<Rightarrow> None | py_path # _ \<Rightarrow> Some py_path)"

definition VirtualEnv_init :: "os \<Rightarrow> string \<Rightarrow> VirtualEnv" where
  "VirtualEnv_init os path =
     (let self_path = os_path_abspath os path;
          python_executable = detect_python_executable os self_path
      in \<lparr> venv_path = self_path,
           venv_name = os_path_basename path,
           venv_project_name = get_project_name path,
           venv_python_version =
             (case python_executable of None \<Rightarrow> None | Some exe \<Rightarrow> detect_version os exe),
           venv_manager = VirtualEnv_detect_manager self_path,
           venv_size_bytes = get_dir_size os self_path,
           venv_packages = [],
           venv_python_executable = python_executable,
           venv_packages_loaded = False \<rparr>)"

subsection \<open>Probing the packages of an environment\<close>

text \<open>
  \<open>[Package(p['name'], p['version']) for p in pkg_list]\<close> on the value that \<open>json.loads\<close>
  returned.  Iterating a list gives its elements, a dict its keys, a string its
  characters; anything else is not iterable.  Subscripting with a string key works on a
  dict only.
\<close>

fun py_iter :: "json \<Rightarrow> exn + json list" where
  "py_iter (JArray xs) = Inr xs"
| "py_iter (JObject kvs) = Inr (map JString (rev (remdups (rev (map fst kvs)))))"
| "py_iter (JString s) = Inr (map (\<lambda>c. JString [c]) s)"
| "py_iter _ = Inl TypeError"

fun py_getitem :: "json \<Rightarrow> string \<Rightarrow> exn + json" where
  "py_getitem (JObject kvs) key =
     (case map_of (rev kvs) key of None \<Rightarrow> Inl KeyError | Some v \<Rightarrow> Inr v)"
| "py_getitem _ key = Inl TypeError"

definition Package_of_json :: "json \<Rightarrow> exn + Package" where
  "Package_of_json p =
     (case py_getitem p ''name'' of
        Inl e \<Rightarrow> Inl e
      | Inr n \<Rightarrow>
          (case py_getitem p ''version'' of
             Inl e \<Rightarrow> Inl e
           | Inr v \<Rightarrow>
               (case (n, v) of
                  (JString name, JString version) \<Rightarrow>
                    Inr \<lparr> pkg_name = name, pkg_version = version, pkg_size_bytes = 0 \<rparr>
                | _ \<Rightarrow> Inl IllTypedValue)))"

fun packages_of_items :: "json list \<Rightarrow> exn + Package list" where
  "packages_of_items [] = Inr []"
| "packages_of_items (p # ps) =
     (case Package_of_json p of
        Inl e \<Rightarrow> Inl e
      | Inr pkg \<Rightarrow> (case packages_of_items ps of Inl e \<Rightarrow> Inl e | Inr pkgs \<Rightarrow> Inr (pkg # pkgs)))"

definition packages_of_json :: "json \<Rightarrow> exn + Package list" where
  "packages_of_json pkg_list =
     (case py_iter pkg_list of Inl e \<Rightarrow> Inl e | Inr items \<Rightarrow> packages_of_items items)"

text \<open>
  \<open>VirtualEnv.probe_packages\<close>: the environment after the call, or the exception that
  leaves the method.  The \<open>except\<close> clause names \<open>SubprocessError\<close>, \<open>FileNotFoundError\<close>
  and \<open>JSONDecodeError\<close>; what the list comprehension raises is none of them.
\<close>

definition probe_packages :: "os \<Rightarrow> bool \<Rightarrow> VirtualEnv \<Rightarrow> exn + VirtualEnv" where
  "probe_packages os force self =
     (if venv_packages_loaded self \<and> \<not> force then Inr self
      else case venv_python_executable self of
        None \<Rightarrow> Inr self
      | Some python_executable \<Rightarrow>
          (case subprocess_run os [python_executable, ''-m'', ''pip'', ''list'', ''--format=json''] of
             Completed returncode stdout \<Rightarrow>
               (if returncode = 0 then
                  (case json_loads os stdout of
                     None \<Rightarrow> Inr self
                   | Some pkg_list \<Rightarrow>
                       (case packages_of_json pkg_list of
                          Inl e \<Rightarrow> Inl e
                        | Inr pkgs \<Rightarrow>
                            Inr (self\<lparr> venv_packages := pkgs, venv_packages_loaded := True \<rparr>)))
                else Inr self)
           | SubprocessError \<Rightarrow> Inr self
           | FileNotFoundError \<Rightarrow> Inr self))"

definition is_venv :: "os \<Rightarrow> string \<Rightarrow> bool" where
  "is_venv os path =
     (if \<not> os_path_isdir os path then False
      else list_ex (\<lambda>m. os_path_exists os (os_path_join path m))
             [''pyvenv.cfg'', os_path_join ''bin'' ''activate'',
              os_path_join ''Scripts'' ''activate.bat''])"

section \<open>Discovery\<close>

text \<open>A \<open>for\<close> loop whose body may raise: the first exception ends the loop and leaves it.\<close>

fun for_each :: "('a \<Rightarrow> 's \<Rightarrow> exn + 's) \<Rightarrow> 'a list \<Rightarrow> 's \<Rightarrow> exn + 's" where
  "for_each body [] s = Inr s"
| "for_each body (x # xs) s =
     (case body x s of Inl e \<Rightarrow> Inl e | Inr s' \<Rightarrow> for_each body xs s')"

lemma for_each_cong [fundef_cong]:
  assumes "xs = ys" and "s = t" and "\<And>x u. x \<in> set ys \<Longrightarrow> body x u = body' x u"
  shows "for_each body xs s = for_each body' ys t"
  using assms by (induction ys arbitrary: xs s t) (auto split: sum.splits)

subsection \<open>Interpreters\<close>

text \<open>The state of \<open>find_python_interpreters\<close>: \<open>found_paths\<close> and \<open>interpreters\<close>.\<close>

type_synonym interp_state = "string set \<times> PythonInterpreter list"

definition add_interpreter :: "os \<Rightarrow> string \<Rightarrow> interp_state \<Rightarrow> interp_state" where
  "add_interpreter os py_path st =
     (let abs_path = os_path_abspath os (os_path_realpath os py_path)
      in if abs_path \<notin> fst st
         then (insert abs_path (fst st), snd st @ [PythonInterpreter_init os abs_path])
         else st)"

definition check_interpreter :: "os \<Rightarrow> string \<Rightarrow> interp_state \<Rightarrow> interp_state" where
  "check_interpreter os py_path st =
     (if os_path_exists os py_path \<and> os_access_X_OK os py_path
      then add_interpreter os py_path st else st)"

definition probe_bin_dir :: "os \<Rightarrow> string \<Rightarrow> interp_state \<Rightarrow> interp_state" where
  "probe_bin_dir os bin_dir st =
     fold (\<lambda>py_name. check_interpreter os (os_path_join bin_dir py_name))
       [''python'', ''python3'', ''python2''] st"

definition interpreters_under :: "os \<Rightarrow> string \<Rightarrow> interp_state \<Rightarrow> exn + interp_state" where
  "interpreters_under os path_template st =
     (let path = os_path_expanduser os path_template in
      if \<not> os_path_exists os path then Inr st
      else case os_scandir os path of
        Inl e \<Rightarrow> (if e = PermissionError then Inr st else Inl e)
      | Inr entries \<Rightarrow>
          Inr (fold (\<lambda>entry st.
                 if entry_is_dir entry \<and> os_path_isdir os (os_path_join (entry_path path entry) ''bin'')
                 then probe_bin_dir os (os_path_join (entry_path path entry) ''bin'') st
                 else st) entries st))"

definition interpreters_on_PATH :: "os \<Rightarrow> interp_state \<Rightarrow> interp_state" where
  "interpreters_on_PATH os st =
     fold (\<lambda>path_dir st.
        if path_dir \<noteq> [] \<and> os_path_isdir os path_dir then probe_bin_dir os path_dir st else st)
       (split (CHR '':'') (os_environ_PATH os)) st"

definition interpreters_of_mdfind :: "os \<Rightarrow> interp_state \<Rightarrow> interp_state" where
  "interpreters_of_mdfind os st =
     (case subprocess_run os [''mdfind'', ''kMDItemFSName == python3''] of
        Completed returncode stdout \<Rightarrow>
          (if returncode = 0 then
             fold (\<lambda>line st. if line \<noteq> [] then check_interpreter os line st else st)
               (split (CHR 0x0A) (strip stdout)) st
           else st)
      | SubprocessError \<Rightarrow> st
      | FileNotFoundError \<Rightarrow> st)"

definition find_python_interpreters :: "os \<Rightarrow> bool \<Rightarrow> exn + PythonInterpreter list" where
  "find_python_interpreters os use_mdfind =
     (case for_each (interpreters_under os) (concat (map snd MANAGER_PATHS)) ({}, []) of
        Inl e \<Rightarrow> Inl e
      | Inr st \<Rightarrow>
          (let st' = interpreters_on_PATH os st;
               st'' = (if use_mdfind \<and> platform_system os = ''Darwin''
                       then interpreters_of_mdfind os st' else st')
           in Inr (snd st'')))"

subsection \<open>Virtual environments\<close>

text \<open>
  The state of \<open>find_venvs\<close>: \<open>found_paths\<close> and \<open>venvs\<close>, and with them the trace of the
  calls \<open>os.scandir(root)\<close> that \<open>scan_dir\<close> makes, each with the depth of its call.
\<close>

record scan_state =
  found_paths :: "string set"
  found_venvs :: "VirtualEnv list"
  scanned :: "(string \<times> int) list"

definition add_venv :: "os \<Rightarrow> string \<Rightarrow> scan_state \<Rightarrow> scan_state" where
  "add_venv os path st =
     (let abs_path = os_path_abspath os path
      in if abs_path \<notin> found_paths st
         then st\<lparr> found_paths := insert abs_path (found_paths st),
                 found_venvs := found_venvs st @ [VirtualEnv_init os abs_path] \<rparr>
         else st)"

definition venvs_under :: "os \<Rightarrow> string \<Rightarrow> scan_state \<Rightarrow> exn + scan_state" where
  "venvs_under os path_template st =
     (let path = os_path_expanduser os path_template in
      if \<not> os_path_exists os path then Inr st
      else case os_scandir os path of
        Inl e \<Rightarrow> (if e = PermissionError then Inr st else Inl e)
      | Inr entries \<Rightarrow>
          Inr (fold (\<lambda>entry st.
                 if entry_is_dir entry \<and> is_venv os (entry_path path entry)
                 then add_venv os (entry_path path entry) st
                 else st) entries st))"

definition scan_excluded :: "string list" where
  "scan_excluded = [''node_modules'', ''Library'', ''Applications'', ''.git'', ''__pycache__'']"

function scan_dir :: "os \<Rightarrow> int \<Rightarrow> string \<Rightarrow> int \<Rightarrow> scan_state \<Rightarrow> exn + scan_state" where
  "scan_dir os max_depth root depth st =
     (if depth > max_depth then Inr st
      else case os_scandir os root of
        Inl e \<Rightarrow>
          (if e = PermissionError then Inr (st\<lparr> scanned := scanned st @ [(root, depth)] \<rparr>)
           else Inl e)
      | Inr entries \<Rightarrow>
          for_each (\<lambda>entry st.
              if \<not> entry_is_dir entry then Inr st
              else if startswith (entry_name entry) ''.''
                      \<and> entry_name entry \<notin> set PROJECT_VENV_NAMES then Inr st
              else if entry_name entry \<in> set scan_excluded then Inr st
              else if is_venv os (entry_path root entry)
                then Inr (add_venv os (entry_path root entry) st)
              else scan_dir os max_depth (entry_path root entry) (depth + 1) st)
            entries (st\<lparr> scanned := scanned st @ [(root, depth)] \<rparr>))"
  by pat_completeness auto
termination
  by (relation "measure (\<lambda>(os, max_depth, root, depth, st). nat (max_depth + 1 - depth))") auto

definition venvs_of_mdfind :: "os \<Rightarrow> scan_state \<Rightarrow> scan_state" where
  "venvs_of_mdfind os st =
     (case subprocess_run os [''mdfind'', ''kMDItemFSName == pyvenv.cfg''] of
        Completed returncode stdout \<Rightarrow>
          (if returncode = 0 then
             fold (\<lambda>line st.
                if line \<noteq> [] \<and> is_venv os (os_path_dirname line)
                then add_venv os (os_path_dirname line) st else st)
               (split (CHR 0x0A) (strip stdout)) st
           else st)
      | SubprocessError \<Rightarrow> st
      | FileNotFoundError \<Rightarrow> st)"

definition scan_root_of :: "os \<Rightarrow> string option \<Rightarrow> string" where
  "scan_root_of os scan_path =
     (case scan_path of
        None \<Rightarrow> os_path_expanduser os ''~''
      | Some p \<Rightarrow> (if p \<noteq> [] then os_path_expanduser os p else os_path_expanduser os ''~''))"

definition find_venvs_state :: "os \<Rightarrow> string option \<Rightarrow> bool \<Rightarrow> int \<Rightarrow> exn + scan_state" where
  "find_venvs_state os scan_path use_mdfind max_depth =
     (case for_each (venvs_under os) (concat (map snd MANAGER_PATHS))
             \<lparr> found_paths = {}, found_venvs = [], scanned = [] \<rparr> of
        Inl e \<Rightarrow> Inl e
      | Inr st \<Rightarrow>
          (case scan_dir os max_depth (scan_root_of os scan_path) 0 st of
             Inl e \<Rightarrow> Inl e
           | Inr st' \<Rightarrow>
               Inr (if use_mdfind \<and> platform_system os = ''Darwin''
                    then venvs_of_mdfind os st' else st')))"

definition find_venvs :: "os \<Rightarrow> string option \<Rightarrow> bool \<Rightarrow> int \<Rightarrow> exn + VirtualEnv list" where
  "find_venvs os scan_path use_mdfind max_depth =
     (case find_venvs_state os scan_path use_mdfind max_depth of
        Inl e \<Rightarrow> Inl e
      | Inr st \<Rightarrow> Inr (found_venvs st))"

section \<open>Package analysis\<close>

text \<open>
  \<open>PackageAnalyzer.package_map\<close>, a \<open>defaultdict(list)\<close>, as an association list in
  insertion order: package name in lower case to the list of (version, environment).
\<close>

type_synonym package_map = "(string \<times> (string \<times> VirtualEnv) list) list"

definition package_map_append ::
  "string \<Rightarrow> string \<times> VirtualEnv \<Rightarrow> package_map \<Rightarrow> package_map" where
  "package_map_append name install m =
     (if name \<in> set (map fst m)
      then map (\<lambda>(k, installs). if k = name then (k, installs @ [install]) else (k, installs)) m
      else m @ [(name, [install])])"

definition add_packages :: "VirtualEnv \<Rightarrow> package_map \<Rightarrow> package_map" where
  "add_packages venv m =
     fold (\<lambda>pkg. package_map_append (lower (pkg_name pkg)) (pkg_version pkg, venv))
       (venv_packages venv) m"

record PackageAnalyzer =
  pa_venvs :: "VirtualEnv list"
  pa_package_map :: package_map

text \<open>\<open>PackageAnalyzer._build_map\<close>: each environment is probed if its packages are not
  loaded (an exception of the probe leaves the constructor), then its packages are filed.\<close>

fun build_map :: "os \<Rightarrow> VirtualEnv list \<Rightarrow> PackageAnalyzer \<Rightarrow> exn + PackageAnalyzer" where
  "build_map os [] self = Inr self"
| "build_map os (venv # venvs) self =
     (case (if \<not> venv_packages_loaded venv then probe_packages os False venv else Inr venv) of
        Inl e \<Rightarrow> Inl e
      | Inr venv' \<Rightarrow>
          build_map os venvs
            \<lparr> pa_venvs = pa_venvs self @ [venv'],
              pa_package_map = add_packages venv' (pa_package_map self) \<rparr>)"

definition PackageAnalyzer_init :: "os \<Rightarrow> VirtualEnv list \<Rightarrow> exn + PackageAnalyzer" where
  "PackageAnalyzer_init os venvs = build_map os venvs \<lparr> pa_venvs = [], pa_package_map = [] \<rparr>"

definition get_duplicates :: "PackageAnalyzer \<Rightarrow> package_map" where
  "get_duplicates self = filter (\<lambda>(name, installs). length installs > 1) (pa_package_map self)"

definition get_version_conflicts :: "PackageAnalyzer \<Rightarrow> (string \<times> string set) list" where
  "get_version_conflicts self =
     map (\<lambda>(name, installs). (name, set (map fst installs)))
       (filter (\<lambda>(name, installs). card (set (map fst installs)) > 1) (pa_package_map self))"

section \<open>The interactive state machine\<close>

datatype view = V_mode_select | V_category_select | V_interpreters | V_venvs | V_venv_detail
  | V_analysis

datatype mode = M_list | M_delete | M_explore | M_package

record tui =
  tui_interpreters :: "PythonInterpreter list"
  tui_venvs :: "VirtualEnv list"
  tui_mode :: "mode option"
  current_view :: view
  selected_venv :: "VirtualEnv option"
  cursor :: int
  scroll_offset :: int
  selected_items :: "int set"
  breadcrumb :: "string list"
  show_help :: bool
  search_mode :: bool
  search_query :: string
  filtered_items :: "int list"

definition BroomstickTUI_init :: "PythonInterpreter list \<Rightarrow> VirtualEnv list \<Rightarrow> tui" where
  "BroomstickTUI_init interpreters venvs =
     \<lparr> tui_interpreters = interpreters, tui_venvs = venvs, tui_mode = None,
       current_view = V_mode_select, selected_venv = None, cursor = 0, scroll_offset = 0,
       selected_items = {}, breadcrumb = [], show_help = False, search_mode = False,
       search_query = [], filtered_items = [] \<rparr>"

text \<open>\<open>xs[i]\<close> and \<open>xs.pop(i)\<close> of a Python list: a negative index counts from the end, an
  index out of range raises \<open>IndexError\<close>.\<close>

definition py_position :: "nat \<Rightarrow> int \<Rightarrow> nat option" where
  "py_position len i =
     (if 0 \<le> i \<and> i < int len then Some (nat i)
      else if i < 0 \<and> - int len \<le> i then Some (nat (int len + i))
      else None)"

definition py_index :: "'a list \<Rightarrow> int \<Rightarrow> exn + 'a" where
  "py_index xs i =
     (case py_position (length xs) i of None \<Rightarrow> Inl IndexError | Some k \<Rightarrow> Inr (xs ! k))"

definition py_pop :: "'a list \<Rightarrow> int \<Rightarrow> exn + 'a list" where
  "py_pop xs i =
     (case py_position (length xs) i of
        None \<Rightarrow> Inl IndexError
      | Some k \<Rightarrow> Inr (take k xs @ drop (Suc k) xs))"

text \<open>The indices \<open>i\<close> of \<open>enumerate(xs)\<close> whose element passes the test, in order.\<close>

definition matching_indices :: "('a \<Rightarrow> bool) \<Rightarrow> 'a list \<Rightarrow> int list" where
  "matching_indices test xs = map (\<lambda>(i, x). int i) (filter (\<lambda>(i, x). test x) (enumerate 0 xs))"

definition apply_search_filter :: "tui \<Rightarrow> tui" where
  "apply_search_filter self =
     self\<lparr> filtered_items :=
       (if current_view self = V_interpreters then
          matching_indices (\<lambda>interp.
              (case interp_version interp of
                 None \<Rightarrow> False
               | Some version \<Rightarrow> version \<noteq> [] \<and> contains (search_query self) (lower version))
              \<or> contains (search_query self) (lower (interp_manager interp))
              \<or> contains (search_query self) (lower (interp_path interp)))
            (tui_interpreters self)
        else if current_view self = V_venvs then
          matching_indices (\<lambda>venv.
              contains (search_query self) (lower (venv_project_name venv))
              \<or> contains (search_query self) (lower (venv_manager venv))
              \<or> contains (search_query self) (lower (venv_path venv)))
            (tui_venvs self)
        else if current_view self = V_venv_detail then
          (case selected_venv self of
             None \<Rightarrow> []
           | Some venv \<Rightarrow>
               matching_indices (\<lambda>pkg.
                   contains (search_query self) (lower (pkg_name pkg))
                   \<or> contains (search_query self) (lower (pkg_version pkg)))
                 (venv_packages venv))
        else []) \<rparr>"

text \<open>\<open>_start_search\<close>, with the text read from the screen as \<open>query\<close>.\<close>

definition start_search :: "string \<Rightarrow> tui \<Rightarrow> tui" where
  "start_search query self =
     (if query \<noteq> [] then
        (apply_search_filter (self\<lparr> search_query := lower query, search_mode := True \<rparr>))
          \<lparr> cursor := 0, scroll_offset := 0 \<rparr>
      else self\<lparr> search_mode := False, search_query := [], filtered_items := [] \<rparr>)"

datatype item = Item_interpreter PythonInterpreter | Item_venv VirtualEnv | Item_package Package

fun index_all :: "'a list \<Rightarrow> int list \<Rightarrow> exn + 'a list" where
  "index_all xs [] = Inr []"
| "index_all xs (i # is) =
     (case py_index xs i of
        Inl e \<Rightarrow> Inl e
      | Inr x \<Rightarrow> (case index_all xs is of Inl e \<Rightarrow> Inl e | Inr ys \<Rightarrow> Inr (x # ys)))"

definition map_result :: "('a \<Rightarrow> 'b) \<Rightarrow> exn + 'a list \<Rightarrow> exn + 'b list" where
  "map_result f r = (case r of Inl e \<Rightarrow> Inl e | Inr xs \<Rightarrow> Inr (map f xs))"

definition get_current_items :: "tui \<Rightarrow> exn + item list" where
  "get_current_items self =
     (if search_mode self \<and> filtered_items self \<noteq> [] then
        (if current_view self = V_interpreters then
           map_result Item_interpreter (index_all (tui_interpreters self) (filtered_items self))
         else if current_view self = V_venvs then
           map_result Item_venv (index_all (tui_venvs self) (filtered_items self))
         else (case (current_view self, selected_venv self) of
                 (V_venv_detail, Some venv) \<Rightarrow>
                   map_result Item_package (index_all (venv_packages venv) (filtered_items self))
               | _ \<Rightarrow> Inr []))
      else
        (if current_view self = V_interpreters then Inr (map Item_interpreter (tui_interpreters self))
         else if current_view self = V_venvs then Inr (map Item_venv (tui_venvs self))
         else (case (current_view self, selected_venv self) of
                 (V_venv_detail, Some venv) \<Rightarrow> Inr (map Item_package (venv_packages venv))
               | _ \<Rightarrow> Inr [])))"

definition adjust_scroll :: "int \<Rightarrow> int \<Rightarrow> tui \<Rightarrow> tui" where
  "adjust_scroll max_items visible_height self =
     (let cursor1 = (if max_items > 0 then max 0 (min (cursor self) (max_items - 1))
                     else cursor self);
          scroll1 = (if cursor1 < scroll_offset self then cursor1
                     else if cursor1 \<ge> scroll_offset self + visible_height
                       then cursor1 - visible_height + 1
                     else scroll_offset self);
          max_scroll = max 0 (max_items - visible_height)
      in self\<lparr> cursor := cursor1, scroll_offset := max 0 (min scroll1 max_scroll) \<rparr>)"

definition max_items_of_view :: "tui \<Rightarrow> int" where
  "max_items_of_view self =
     (case current_view self of
        V_mode_select \<Rightarrow> 5
      | V_category_select \<Rightarrow> (if tui_mode self = Some M_explore then 3 else 2)
      | V_interpreters \<Rightarrow> int (length (tui_interpreters self))
      | V_venvs \<Rightarrow> int (length (tui_venvs self))
      | V_venv_detail \<Rightarrow>
          (case selected_venv self of None \<Rightarrow> 0 | Some venv \<Rightarrow> int (length (venv_packages venv)))
      | V_analysis \<Rightarrow> 0)"

definition adjust_scroll_for_view :: "int \<Rightarrow> tui \<Rightarrow> tui" where
  "adjust_scroll_for_view screen_height self =
     adjust_scroll (max_items_of_view self) (screen_height - 10) self"

text \<open>The branches of \<open>run\<close> for the arrow keys.\<close>

definition key_up :: "int \<Rightarrow> tui \<Rightarrow> tui" where
  "key_up height self = adjust_scroll_for_view height (self\<lparr> cursor := max 0 (cursor self - 1) \<rparr>)"

definition key_down :: "int \<Rightarrow> tui \<Rightarrow> tui" where
  "key_down height self = adjust_scroll_for_view height (self\<lparr> cursor := cursor self + 1 \<rparr>)"

text \<open>How a handler ends: it returns, it ends the program (\<open>sys.exit\<close>, or the \<open>break\<close> of
  the main loop), or an exception leaves it.\<close>

datatype 'a outcome = Returned 'a | Exited | Raised exn

definition handle_enter :: "tui \<Rightarrow> tui outcome" where
  "handle_enter self =
     (if current_view self = V_mode_select then
        (if cursor self < 5 then
           (case py_index [Some M_list, Some M_delete, Some M_explore, Some M_package, None]
                   (cursor self) of
              Inl e \<Rightarrow> Raised e
            | Inr None \<Rightarrow> Exited
            | Inr (Some selected) \<Rightarrow>
                Returned (self\<lparr> tui_mode := Some selected, current_view := V_category_select,
                  breadcrumb := [], cursor := 0, scroll_offset := 0, selected_items := {} \<rparr>))
         else Returned self)
      else if current_view self = V_category_select then
        (if cursor self = 0 then
           Returned (self\<lparr> current_view := V_interpreters,
             breadcrumb := breadcrumb self @ [''Interpreters''], cursor := 0, scroll_offset := 0 \<rparr>)
         else if cursor self = 1 then
           Returned (self\<lparr> current_view := V_venvs,
             breadcrumb := breadcrumb self @ [''Virtual Environments''],
             cursor := 0, scroll_offset := 0 \<rparr>)
         else if cursor self = 2 \<and> tui_mode self = Some M_explore then
           Returned (self\<lparr> current_view := V_analysis,
             breadcrumb := breadcrumb self @ [''Analysis''], cursor := 0, scroll_offset := 0 \<rparr>)
         else Returned self)
      else if current_view self = V_venvs
              \<and> tui_mode self \<in> {Some M_list, Some M_explore, Some M_package} then
        (if cursor self < int (length (tui_venvs self)) then
           (case py_index (tui_venvs self) (cursor self) of
              Inl e \<Rightarrow> Raised e
            | Inr venv \<Rightarrow>
                Returned (self\<lparr> selected_venv := Some venv, current_view := V_venv_detail,
                  breadcrumb := breadcrumb self @ [venv_project_name venv],
                  cursor := 0, scroll_offset := 0, selected_items := {} \<rparr>))
         else Returned self)
      else Returned self)"

definition toggle_selection :: "tui \<Rightarrow> tui" where
  "toggle_selection self =
     (if current_view self \<in> {V_interpreters, V_venvs, V_venv_detail} then
        (if cursor self \<in> selected_items self
         then self\<lparr> selected_items := selected_items self - {cursor self} \<rparr>
         else self\<lparr> selected_items := insert (cursor self) (selected_items self) \<rparr>)
      else self)"

text \<open>The branch of \<open>run\<close> for the space key.\<close>

definition key_space :: "tui \<Rightarrow> tui" where
  "key_space self =
     (if tui_mode self \<in> {Some M_delete, Some M_package} then toggle_selection self else self)"

text \<open>
  What the list views draw as the mark of the row at visible position \<open>idx\<close>
  (\<open>_draw_venvs\<close>, \<open>_draw_interpreters\<close>: ``for marked items, need to map back to original
  index'').
\<close>

definition original_idx :: "tui \<Rightarrow> int \<Rightarrow> exn + int" where
  "original_idx self idx =
     (if search_mode self \<and> idx < int (length (filtered_items self))
      then py_index (filtered_items self) idx else Inr idx)"

definition is_marked :: "tui \<Rightarrow> int \<Rightarrow> exn + bool" where
  "is_marked self idx =
     (case original_idx self idx of Inl e \<Rightarrow> Inl e | Inr i \<Rightarrow> Inr (i \<in> selected_items self))"

definition go_back :: "tui \<Rightarrow> tui" where
  "go_back self =
     (if current_view self = V_venv_detail then
        self\<lparr> current_view := V_venvs, selected_venv := None, cursor := 0, scroll_offset := 0,
              selected_items := {}, breadcrumb := butlast (breadcrumb self) \<rparr>
      else if current_view self \<in> {V_interpreters, V_venvs, V_analysis} then
        self\<lparr> current_view := V_category_select, cursor := 0, scroll_offset := 0,
              selected_items := {}, breadcrumb := [] \<rparr>
      else if current_view self = V_category_select then
        self\<lparr> current_view := V_mode_select, tui_mode := None, cursor := 0, scroll_offset := 0,
              breadcrumb := [] \<rparr>
      else
        self\<lparr> current_view := V_mode_select, tui_mode := None, cursor := 0, breadcrumb := [] \<rparr>)"

text \<open>The branches of \<open>run\<close> for \<open>q\<close> and for ESC.\<close>

definition key_q :: "tui \<Rightarrow> tui outcome" where
  "key_q self =
     (if length (breadcrumb self) > 0 \<or> current_view self \<noteq> V_mode_select
      then Returned (go_back self) else Exited)"

definition key_escape :: "tui \<Rightarrow> tui" where
  "key_escape self =
     (if search_mode self
      then self\<lparr> search_mode := False, search_query := [], filtered_items := [] \<rparr>
      else go_back self)"

subsection \<open>Deleting the marked environments\<close>

text \<open>
  \<open>shutil.rmtree(path)\<close> is a parameter: from a file system it gives whether the call
  returned (\<open>True\<close>) or raised, and the file system left behind; whatever \<open>rmtree\<close> or
  \<open>pop\<close> raises is caught and the loop goes on.  The state of the loop
  of \<open>_confirm_delete\<close> is \<open>self.venvs\<close>, the counter \<open>deleted\<close>, the file system, and the
  paths \<open>rmtree\<close> has been called on, in call order.
\<close>

type_synonym 'fs rmtree = "string \<Rightarrow> 'fs \<Rightarrow> bool \<times> 'fs"

record 'fs delete_state =
  ds_venvs :: "VirtualEnv list"
  ds_deleted :: int
  ds_fs :: 'fs
  ds_rmtree_calls :: "string list"

fun delete_loop ::
  "os \<Rightarrow> 'fs rmtree \<Rightarrow> view \<Rightarrow> int list \<Rightarrow> 'fs delete_state \<Rightarrow> exn + 'fs delete_state" where
  "delete_loop os rmtree v [] st = Inr st"
| "delete_loop os rmtree v (idx # idxs) st =
     (if v = V_venvs \<and> idx < int (length (ds_venvs st)) then
        (case py_index (ds_venvs st) idx of
           Inl e \<Rightarrow> Inl e
         | Inr venv \<Rightarrow>
             (if \<not> is_system_path os (venv_path venv) then
                (case (rmtree (venv_path venv) (ds_fs st), py_pop (ds_venvs st) idx) of
                   ((True, fs'), Inr venvs') \<Rightarrow>
                     delete_loop os rmtree v idxs
                       \<lparr> ds_venvs = venvs', ds_deleted = ds_deleted st + 1, ds_fs = fs',
                         ds_rmtree_calls = ds_rmtree_calls st @ [venv_path venv] \<rparr>
                 | ((_, fs'), _) \<Rightarrow>
                     delete_loop os rmtree v idxs
                       (st\<lparr> ds_fs := fs',
                            ds_rmtree_calls := ds_rmtree_calls st @ [venv_path venv] \<rparr>))
              else delete_loop os rmtree v idxs st))
      else delete_loop os rmtree v idxs st)"

text \<open>
  \<open>_confirm_delete\<close>, with the answer typed at the prompt as \<open>response\<close>.  The size shown
  in the prompt is computed first; it reads \<open>self.venvs[i]\<close> for every marked \<open>i\<close> below
  the length of the list, which raises for an index below minus that length.
\<close>

definition confirm_delete ::
  "os \<Rightarrow> 'fs rmtree \<Rightarrow> string \<Rightarrow> tui \<times> 'fs \<times> string list \<Rightarrow> exn + tui \<times> 'fs \<times> string list" where
  "confirm_delete os rmtree response w =
     (case w of (self, fs, calls) \<Rightarrow>
        if selected_items self = {} then Inr w
        else if current_view self = V_venvs
                \<and> (\<exists>i \<in> selected_items self. i < - int (length (tui_venvs self)))
          then Inl IndexError
        else if lower response \<in> {''y'', ''yes''} then
          (case delete_loop os rmtree (current_view self)
                  (rev (sorted_list_of_set (selected_items self)))
                  \<lparr> ds_venvs = tui_venvs self, ds_deleted = 0, ds_fs = fs,
                    ds_rmtree_calls = calls \<rparr> of
             Inl e \<Rightarrow> Inl e
           | Inr st \<Rightarrow>
               Inr (self\<lparr> tui_venvs := ds_venvs st, selected_items := {},
                          cursor := min (cursor self) (max 0 (int (length (ds_venvs st)) - 1)) \<rparr>,
                    ds_fs st, ds_rmtree_calls st))
        else Inr w)"

text \<open>The branch of \<open>run\<close> for the key \<open>d\<close>.\<close>

definition key_d ::
  "os \<Rightarrow> 'fs rmtree \<Rightarrow> string \<Rightarrow> tui \<times> 'fs \<times> string list \<Rightarrow> exn + tui \<times> 'fs \<times> string list" where
  "key_d os rmtree response w =
     (if tui_mode (fst w) = Some M_delete then confirm_delete os rmtree response w else Inr w)"

section \<open>Example machines and states\<close>

text \<open>A machine without files and without a working process runner.\<close>

definition example_os :: os where
  "example_os =
     \<lparr> os_path_abspath = (\<lambda>p. p), os_path_realpath = (\<lambda>p. p), os_path_expanduser = (\<lambda>p. p),
       os_path_exists = (\<lambda>p. False), os_path_isdir = (\<lambda>p. False), os_access_X_OK = (\<lambda>p. False),
       os_scandir = (\<lambda>p. Inl OSError), os_environ_PATH = [], platform_system = ''Linux'',
       get_dir_size = (\<lambda>p. 0), subprocess_run = (\<lambda>args. FileNotFoundError),
       json_loads = (\<lambda>s. None) \<rparr>"

lemmas lower_eval = lower_def lower_char_def ascii_uppercase_def ascii_lowercase_def

section \<open>Manager tags\<close>

text \<open>A rule list: each rule is a list of substrings and a tag; the first rule one of whose
  substrings occurs in the path gives the tag, and the fallback is used when none does.\<close>

fun first_match :: "(string list \<times> string) list \<Rightarrow> string \<Rightarrow> string \<Rightarrow> string" where
  "first_match [] fallback p = fallback"
| "first_match ((needles, tag) # rules) fallback p =
     (if list_ex (\<lambda>n. contains n p) needles then tag else first_match rules fallback p)"

definition conda_needles :: "string list" where
  "conda_needles = [''conda'', ''miniconda'', ''anaconda'']"

text \<open>The rules of \<open>PythonInterpreter._detect_info\<close> and of \<open>VirtualEnv._detect_info\<close>, each in
  the order of its \<open>if\<close>/\<open>elif\<close> chain.\<close>

definition interpreter_rules :: "(string list \<times> string) list" where
  "interpreter_rules =
     [([''.pyenv''], ''pyenv''), ([''.asdf''], ''asdf''), (conda_needles, ''conda''),
      ([''homebrew'', ''cellar''], ''homebrew''), ([''uv''], ''uv'')]"

definition venv_rules :: "(string list \<times> string) list" where
  "venv_rules =
     [([''.pyenv''], ''pyenv''), ([''pipx''], ''pipx''), ([''poetry''], ''poetry''),
      (conda_needles, ''conda''), ([''virtualenvs'', ''pipenv''], ''pipenv''),
      ([''hatch''], ''hatch''), ([''pdm''], ''pdm''), ([''uv''], ''uv'')]"

text \<open>
  The classifier as the specification words it (section 4.1): one rule list for
  interpreters and environments alike, in the order pyenv, asdf, conda family, homebrew,
  pipx, poetry, pipenv/virtualenvs, hatch, pdm, uv, then the fallback system or unknown
  (interpreters) or venv (environments).  The substrings of each rule are those the source
  tests for that tag.
\<close>

definition spec_rules :: "(string list \<times> string) list" where
  "spec_rules =
     [([''.pyenv''], ''pyenv''), ([''.asdf''], ''asdf''), (conda_needles, ''conda''),
      ([''homebrew'', ''cellar''], ''homebrew''), ([''pipx''], ''pipx''), ([''poetry''], ''poetry''),
      ([''virtualenvs'', ''pipenv''], ''pipenv''), ([''hatch''], ''hatch''), ([''pdm''], ''pdm''),
      ([''uv''], ''uv'')]"

definition classify_spec :: "bool \<Rightarrow> string \<Rightarrow> bool \<Rightarrow> string" where
  "classify_spec is_system path is_interpreter =
     first_match spec_rules
       (if is_interpreter then (if is_system then ''system'' else ''unknown'') else ''venv'')
       (lower path)"

text \<open>
  Claim C8, as amended.  The manager tag is assigned by the first matching rule of a fixed
  ordered rule list evaluated against substrings of the lower-cased path, but interpreters
  and environments each have a list of their own: for interpreters pyenv, asdf, conda
  family, homebrew, uv, then system (when the path is a system path) or unknown; for
  environments pyenv, pipx, poetry, conda family, pipenv/virtualenvs, hatch, pdm, uv, then
  venv.
\<close>

theorem manager_first_match:
  "PythonInterpreter_detect_manager is_system path =
     first_match interpreter_rules (if is_system then ''system'' else ''unknown'') (lower path)
   \<and> VirtualEnv_detect_manager path = first_match venv_rules ''venv'' (lower path)"
  by (simp add: PythonInterpreter_detect_manager_def VirtualEnv_detect_manager_def
      interpreter_rules_def venv_rules_def conda_needles_def Let_def)

text \<open>
  Claim C8 as stated fails.  An environment under a conda directory whose name holds
  \<open>poetry\<close> is tagged poetry by the code, where the single list of the claim (conda family
  before poetry) gives conda; an interpreter under a pipx directory is tagged unknown by
  the code, where the single list gives pipx.
\<close>

theorem manager_single_list_counterexample:
  "VirtualEnv_detect_manager ''/home/u/miniconda3/envs/poetry-demo'' = ''poetry''
   \<and> classify_spec False ''/home/u/miniconda3/envs/poetry-demo'' False = ''conda''
   \<and> PythonInterpreter_detect_manager False ''/home/u/.local/pipx/venvs/black/bin/python''
       = ''unknown''
   \<and> classify_spec False ''/home/u/.local/pipx/venvs/black/bin/python'' True = ''pipx''"
  by (simp add: VirtualEnv_detect_manager_def PythonInterpreter_detect_manager_def
      classify_spec_def spec_rules_def conda_needles_def lower_eval Let_def)

section \<open>Project names\<close>

lemma split_no_sep: "sep \<notin> set w \<Longrightarrow> split sep w = [w]"
  by (induction w) auto

lemma split_append_sep: "sep \<notin> set c \<Longrightarrow> split sep (c @ sep # r) = c # split sep r"
  by (induction c) auto

text \<open>A proper path component is not empty, is not the single dot and holds no slash; an
  absolute path is written from its components with a slash before each.\<close>

definition proper_component :: "string \<Rightarrow> bool" where
  "proper_component c \<longleftrightarrow> c \<noteq> [] \<and> c \<noteq> ''.'' \<and> CHR ''/'' \<notin> set c"

definition path_of_components :: "string list \<Rightarrow> string" where
  "path_of_components cs = concat (map (\<lambda>c. ''/'' @ c) cs)"

lemma Path_parts_components:
  "list_all proper_component cs \<Longrightarrow> Path_parts (path_of_components cs) = cs"
proof (induction cs)
  case Nil
  then show ?case by (simp add: Path_parts_def path_of_components_def)
next
  case (Cons c cs)
  then have c: "c \<noteq> []" "c \<noteq> ''.''" "CHR ''/'' \<notin> set c"
    and IH: "Path_parts (path_of_components cs) = cs"
    by (auto simp: proper_component_def)
  show ?case
  proof (cases cs)
    case Nil
    with c show ?thesis by (simp add: Path_parts_def path_of_components_def split_no_sep)
  next
    case (Cons d ds)
    then obtain r where r: "path_of_components cs = CHR ''/'' # r"
      by (simp add: path_of_components_def)
    with IH have "filter (\<lambda>c. c \<noteq> [] \<and> c \<noteq> ''.'') (split (CHR ''/'') r) = cs"
      by (simp add: Path_parts_def)
    moreover have "path_of_components (c # cs) = CHR ''/'' # (c @ CHR ''/'' # r)"
      using r by (simp add: path_of_components_def)
    ultimately show ?thesis using c
      by (simp add: Path_parts_def split_append_sep)
  qed
qed

text \<open>
  Claim C10.  For an environment path with components \<open>cs\<close>, the project name is the name
  of the parent directory (the last component but one; the empty name when the parent is
  the root) when the last component is one of \<open>.venv\<close>, \<open>venv\<close>, \<open>env\<close>, \<open>.env\<close>,
  \<open>virtualenv\<close>, and the last component otherwise.  The constructor stores this name, and
  drilling into the environment under the cursor pushes it onto the breadcrumb.
\<close>

theorem project_name_pushed_by_drill_in:
  assumes "cs \<noteq> []" and "list_all proper_component cs" and "p = path_of_components cs"
    and "current_view s = V_venvs"
    and "tui_mode s \<in> {Some M_list, Some M_explore, Some M_package}"
    and "0 \<le> cursor s" and "cursor s < int (length (tui_venvs s))"
    and "tui_venvs s ! nat (cursor s) = VirtualEnv_init os p"
  shows "get_project_name p =
           (if last cs \<in> set PROJECT_VENV_NAMES
            then (if butlast cs = [] then [] else last (butlast cs))
            else last cs)
         \<and> venv_project_name (VirtualEnv_init os p) = get_project_name p
         \<and> (\<exists>s'. handle_enter s = Returned s' \<and> current_view s' = V_venv_detail
                \<and> breadcrumb s' = breadcrumb s @ [get_project_name p])"
proof -
  have parts: "Path_parts p = cs"
    using assms(2,3) by (simp add: Path_parts_components)
  have name: "get_project_name p =
           (if last cs \<in> set PROJECT_VENV_NAMES
            then (if butlast cs = [] then [] else last (butlast cs))
            else last cs)"
    using assms(1) by (simp add: get_project_name_def Path_name_def Path_parent_name_def
        parts parts_name_def)
  have init: "venv_project_name (VirtualEnv_init os p) = get_project_name p"
    by (simp add: VirtualEnv_init_def Let_def)
  have idx: "py_index (tui_venvs s) (cursor s) = Inr (VirtualEnv_init os p)"
    using assms(6,7,8) by (simp add: py_index_def py_position_def)
  have "\<exists>s'. handle_enter s = Returned s' \<and> current_view s' = V_venv_detail
                \<and> breadcrumb s' = breadcrumb s @ [get_project_name p]"
    using assms(4,5,7) idx init by (auto simp: handle_enter_def)
  with name init show ?thesis by blast
qed

definition example_venvs_state :: tui where
  "example_venvs_state =
     (BroomstickTUI_init [] [VirtualEnv_init example_os ''/home/u/proj/.venv''])
       \<lparr> tui_mode := Some M_list, current_view := V_venvs \<rparr>"

text \<open>Claim C10 at the path \<open>/home/u/proj/.venv\<close>: the project name is \<open>proj\<close>, and it is
  what drill-in pushes.\<close>

theorem project_name_pushed_by_drill_in_witness:
  "get_project_name ''/home/u/proj/.venv'' = ''proj''
   \<and> (\<exists>s'. handle_enter example_venvs_state = Returned s'
          \<and> breadcrumb s' = [''proj''])"
proof -
  have "get_project_name ''/home/u/proj/.venv'' =
           (if last [''home'', ''u'', ''proj'', ''.venv''] \<in> set PROJECT_VENV_NAMES
            then (if butlast [''home'', ''u'', ''proj'', ''.venv''] = [] then []
                  else last (butlast [''home'', ''u'', ''proj'', ''.venv'']))
            else last [''home'', ''u'', ''proj'', ''.venv''])
         \<and> venv_project_name (VirtualEnv_init example_os ''/home/u/proj/.venv'')
             = get_project_name ''/home/u/proj/.venv''
         \<and> (\<exists>s'. handle_enter example_venvs_state = Returned s'
                \<and> current_view s' = V_venv_detail
                \<and> breadcrumb s' = breadcrumb example_venvs_state
                     @ [get_project_name ''/home/u/proj/.venv''])"
    by (rule project_name_pushed_by_drill_in)
       (simp_all add: proper_component_def path_of_components_def example_venvs_state_def
          BroomstickTUI_init_def)
  then show ?thesis
    by (auto simp: PROJECT_VENV_NAMES_def example_venvs_state_def BroomstickTUI_init_def)
qed

end
